theory Spec2Isabelle
  imports Main
begin

section \<open>Values, panics and errors of the Go runtime\<close>

text \<open>
  \<open>d.Get\<close> returns an \<open>interface{}\<close>. The handlers only ever ask whether the value is
  a string, so a value is a string or one of a few other things.
\<close>

datatype val = VString string | VInt int | VBool bool | VNil

text \<open>
  A Go panic ends the handler; nothing is returned. The two panics this file can raise
  are a failed type assertion \<open>x.(string)\<close> (it carries the offending value) and a slice
  index out of range (it carries the index and the length).
\<close>

datatype panic = InterfaceConversion val | IndexOutOfRange nat nat

text \<open>
  A Go \<open>error\<close>: \<open>errors.New\<close> makes an \<open>ErrorString\<close>; \<open>fmt.Errorf\<close> with a \<open>%w\<close> verb
  makes a \<open>WrapError\<close> of the whole formatted message and the wrapped cause.
\<close>

datatype goerror = ErrorString string | WrapError string goerror

fun Error :: "goerror \<Rightarrow> string" where
  "Error (ErrorString s) = s"
| "Error (WrapError msg err) = msg"

fun Unwrap :: "goerror \<Rightarrow> goerror option" where
  "Unwrap (ErrorString s) = None"
| "Unwrap (WrapError msg err) = Some err"

datatype severity = SevError | SevWarning

record Diagnostic =
  Severity :: severity
  Summary :: string

type_synonym Diagnostics = "Diagnostic list"

text \<open>\<open>diag.FromErr\<close>: one error diagnostic whose summary is the error's message.\<close>

definition FromErr :: "goerror \<Rightarrow> Diagnostics" where
  "FromErr err = [\<lparr>Severity = SevError, Summary = Error err\<rparr>]"

text \<open>The type assertion \<open>x.(string)\<close>, which panics, and \<open>s, ok := x.(string)\<close>, which does not.\<close>

fun asString :: "val \<Rightarrow> panic + string" where
  "asString (VString s) = Inr s"
| "asString v = Inl (InterfaceConversion v)"


text \<open>Indexing a slice: in range, or a panic.\<close>

definition index :: "'a list \<Rightarrow> nat \<Rightarrow> panic + 'a" where
  "index xs i = (if i < length xs then Inr (xs ! i) else Inl (IndexOutOfRange i (length xs)))"

text \<open>
  \<open>strings.SplitN(s, sep, n)\<close> for a one-character separator and \<open>n \<ge> 0\<close>: nothing for
  \<open>n = 0\<close>; otherwise \<open>s\<close> is cut at its first \<open>n - 1\<close> separators and the last piece is
  the remainder, separators included.
\<close>

fun SplitN :: "string \<Rightarrow> char \<Rightarrow> nat \<Rightarrow> string list" where
  "SplitN s sep 0 = []"
| "SplitN s sep (Suc 0) = [s]"
| "SplitN s sep (Suc (Suc n)) =
     (if sep \<in> set s
      then takeWhile (\<lambda>c. c \<noteq> sep) s # SplitN (tl (dropWhile (\<lambda>c. c \<noteq> sep) s)) sep (Suc n)
      else [s])"

text \<open>The number of slash-delimited segments of a string (what an unbounded split gives).\<close>

definition segments :: "string \<Rightarrow> nat" where
  "segments s = Suc (count_list s (CHR ''/''))"

section \<open>The state store: \<open>schema.ResourceData\<close>\<close>

text \<open>
  The handlers use the resource data through \<open>Id\<close>, \<open>SetId\<close>, \<open>Get\<close> and \<open>Set\<close> only: an
  identifier and a value for every field name. The error \<open>Set\<close> returns is dropped by
  every caller in the source and is not modelled.
\<close>

record ResourceData =
  Id' :: string
  attrs :: "string \<Rightarrow> val"

definition Get :: "ResourceData \<Rightarrow> string \<Rightarrow> val" where
  "Get d k = attrs d k"

definition Set' :: "ResourceData \<Rightarrow> string \<Rightarrow> val \<Rightarrow> ResourceData" where
  "Set' d k v = d\<lparr>attrs := (attrs d)(k := v)\<rparr>"

definition SetId :: "ResourceData \<Rightarrow> string \<Rightarrow> ResourceData" where
  "SetId d i = d\<lparr>Id' := i\<rparr>"

section \<open>The remote client: \<open>cloudflare.API\<close>\<close>

record TunnelRoute =
  Network :: string
  TunnelID :: string
  Comment :: string
  VirtualNetworkID :: string

record TunnelRoutesListParams =
  l_AccountID :: string
  l_IsDeleted :: "bool option"
  l_NetworkSubset :: string
  l_NetworkSuperset :: string
  l_VirtualNetworkID :: string

record TunnelRoutesCreateParams =
  c_AccountID :: string
  c_TunnelID :: string
  c_Network :: string
  c_VirtualNetworkID :: string
  c_Comment :: string

record TunnelRoutesUpdateParams =
  u_AccountID :: string
  u_TunnelID :: string
  u_Network :: string
  u_Comment :: string
  u_VirtualNetworkID :: string

record TunnelRoutesDeleteParams =
  d_AccountID :: string
  d_Network :: string
  d_VirtualNetworkID :: string

text \<open>
  The client's four calls. The remote service is a state of any type \<open>'r\<close>; every call
  may answer with an error and may change the remote state.
\<close>

record 'r API =
  ListTunnelRoutes :: "TunnelRoutesListParams \<Rightarrow> 'r \<Rightarrow> (goerror + TunnelRoute list) \<times> 'r"
  CreateTunnelRoute :: "TunnelRoutesCreateParams \<Rightarrow> 'r \<Rightarrow> (goerror + TunnelRoute) \<times> 'r"
  UpdateTunnelRoute :: "TunnelRoutesUpdateParams \<Rightarrow> 'r \<Rightarrow> (goerror + TunnelRoute) \<times> 'r"
  DeleteTunnelRoute :: "TunnelRoutesDeleteParams \<Rightarrow> 'r \<Rightarrow> goerror option \<times> 'r"

section \<open>The handlers\<close>

text \<open>
  Every handler takes the client, the resource data and the remote state, and returns a
  panic, or what it returns in Go together with the resource data (mutated through the
  pointer \<open>d\<close>) and the remote state it leaves. The \<open>%q\<close> verb of \<open>fmt\<close> is the parameter
  \<open>q\<close> (Go's \<open>strconv.Quote\<close>). The client is an argument, so the assertion
  \<open>meta.(*cloudflare.API)\<close> is taken to succeed; the context is passed on to the client
  and is part of what the client's calls stand for. Log lines are not part of the model.
\<close>

definition Read ::
  "'r API \<Rightarrow> ResourceData \<Rightarrow> 'r \<Rightarrow> panic + (Diagnostics \<times> ResourceData \<times> 'r)" where
  "Read client d r =
     (case asString (Get d ''account_id'') of Inl p \<Rightarrow> Inl p | Inr accountID \<Rightarrow>
     (case asString (Get d ''network'') of Inl p \<Rightarrow> Inl p | Inr network \<Rightarrow>
     (case asString (Get d ''virtual_network_id'') of Inl p \<Rightarrow> Inl p | Inr virtualNetworkID \<Rightarrow>
     (let resource = \<lparr>l_AccountID = accountID, l_IsDeleted = Some False,
                      l_NetworkSubset = network, l_NetworkSuperset = network,
                      l_VirtualNetworkID = virtualNetworkID\<rparr>
      in (case ListTunnelRoutes client resource r of
           (Inl err, r') \<Rightarrow>
             Inr (FromErr (WrapError (''failed to fetch Tunnel Route: '' @ Error err) err), d, r')
         | (Inr tunnelRoutes, r') \<Rightarrow>
             if length tunnelRoutes < 1 then Inr ([], SetId d '''', r')
             else
               (let tunnelRoute = tunnelRoutes ! 0;
                    d1 = Set' d ''tunnel_id'' (VString (TunnelID tunnelRoute));
                    d2 = Set' d1 ''network'' (VString (Network tunnelRoute));
                    d3 = (if length (Comment tunnelRoute) > 0
                          then Set' d2 ''comment'' (VString (Comment tunnelRoute)) else d2);
                    d4 = (if virtualNetworkID \<noteq> ''''
                          then Set' d3 ''virtual_network_id''
                                 (VString (VirtualNetworkID tunnelRoute))
                          else d3)
                in Inr ([], d4, r')))))))"



definition Delete ::
  "(string \<Rightarrow> string) \<Rightarrow> 'r API \<Rightarrow> ResourceData \<Rightarrow> 'r \<Rightarrow>
     panic + (Diagnostics \<times> ResourceData \<times> 'r)" where
  "Delete q client d r =
     (case asString (Get d ''network'') of Inl p \<Rightarrow> Inl p | Inr network \<Rightarrow>
     (case asString (Get d ''account_id'') of Inl p \<Rightarrow> Inl p | Inr accountID \<Rightarrow>
     (case asString (Get d ''virtual_network_id'') of Inl p \<Rightarrow> Inl p | Inr virtualNetworkID \<Rightarrow>
     (let resource = \<lparr>d_AccountID = accountID, d_Network = network,
                      d_VirtualNetworkID = virtualNetworkID\<rparr>
      in (case DeleteTunnelRoute client resource r of
           (Some err, r') \<Rightarrow>
             Inr (FromErr (WrapError (''error deleting Tunnel Route for Network '' @ q network
                                       @ '': '' @ Error err) err), d, r')
         | (None, r') \<Rightarrow> Inr ([], d, r'))))))"

text \<open>
  The importer returns \<open>(nil, err)\<close> or \<open>([]*schema.ResourceData{d}, nil)\<close>: an error, or
  the list holding the resource data. In the four-segment branch the source reads
  \<open>attributes[4]\<close> and stores \<open>accountID\<close> under \<open>virtual_network_id\<close>; both are kept.
\<close>

definition Import ::
  "(string \<Rightarrow> string) \<Rightarrow> 'r API \<Rightarrow> ResourceData \<Rightarrow> 'r \<Rightarrow>
     panic + ((goerror + ResourceData list) \<times> ResourceData \<times> 'r)" where
  \<open>Import q client d r =
     (let attributes = SplitN (Id' d) (CHR ''/'') 4 in
      if length attributes \<noteq> 3 \<and> length attributes \<noteq> 4
      then Inr (Inl (ErrorString
             (''invalid id ('' @ q (Id' d) @ '') specified, should be in format "accountID/network" or "accountID/network/virtual_network_id"'')),
            d, r)
      else
        (case index attributes 0 of Inl p \<Rightarrow> Inl p | Inr accountID \<Rightarrow>
        (case index attributes 1 of Inl p \<Rightarrow> Inl p | Inr a1 \<Rightarrow>
        (case index attributes 2 of Inl p \<Rightarrow> Inl p | Inr a2 \<Rightarrow>
        (let network = a1 @ ''/'' @ a2 in
        (case (if length attributes = 4
               then (case index attributes 4 of Inl p \<Rightarrow> Inl p
                     | Inr a4 \<Rightarrow>
                         Inr (Set' (SetId d (network @ ''/'' @ a4))
                                ''virtual_network_id'' (VString accountID)))
               else Inr (SetId d network)) of
           Inl p \<Rightarrow> Inl p
         | Inr d1 \<Rightarrow>
            (let d2 = Set' d1 ''account_id'' (VString accountID);
                 d3 = Set' d2 ''network'' (VString network)
             in (case Read client d3 r of
                  Inl p \<Rightarrow> Inl p
                | Inr (err, d4, r') \<Rightarrow>
                    if err \<noteq> []
                    then Inr (Inl (ErrorString ''failed to read Tunnel Route state''), d4, r')
                    else Inr (Inr [d4], d4, r')))))))))\<close>

section \<open>Concrete inputs\<close>

text \<open>
  What \<open>%q\<close> prints for a string of printable ASCII characters that holds no double quote
  and no backslash: the string between double quotes.
\<close>

definition plainQuote :: "string \<Rightarrow> string" where
  "plainQuote s = [CHR 0x22] @ s @ [CHR 0x22]"

text \<open>The resource data an import starts from: an identifier, every field the empty string.\<close>

definition freshData :: "string \<Rightarrow> ResourceData" where
  "freshData i = \<lparr>Id' = i, attrs = (\<lambda>k. VString '''')\<rparr>"

text \<open>
  A resource data with identifier \<open>i\<close>, account \<open>a\<close>, tunnel \<open>t\<close>, network \<open>n\<close>, virtual
  network \<open>v\<close> and comment value \<open>c\<close>; every other field is the empty string.
\<close>

definition stored ::
  "string \<Rightarrow> string \<Rightarrow> string \<Rightarrow> string \<Rightarrow> string \<Rightarrow> val \<Rightarrow> ResourceData" where
  "stored i a t n v c =
     \<lparr>Id' = i,
      attrs = (\<lambda>k. VString '''')
        (''account_id'' := VString a, ''tunnel_id'' := VString t, ''network'' := VString n,
         ''virtual_network_id'' := VString v, ''comment'' := c)\<rparr>"

text \<open>
  A remote service held in memory, to run the handlers on: its state is the list of its
  routes. It files a route under \<open>norm network\<close>, lists the routes of the network asked
  for (and of the virtual network, when one is given), and replaces or removes the
  routes with the key given.
\<close>

definition memAPI :: "(string \<Rightarrow> string) \<Rightarrow> TunnelRoute list API" where
  "memAPI norm =
     \<lparr>ListTunnelRoutes = (\<lambda>p rs.
        (Inr (filter (\<lambda>t. Network t = norm (l_NetworkSubset p)
                          \<and> (l_VirtualNetworkID p = ''''
                               \<or> VirtualNetworkID t = l_VirtualNetworkID p)) rs), rs)),
      CreateTunnelRoute = (\<lambda>p rs.
        (let t = \<lparr>Network = norm (c_Network p), TunnelID = c_TunnelID p,
                  Comment = c_Comment p, VirtualNetworkID = c_VirtualNetworkID p\<rparr>
         in (Inr t, rs @ [t]))),
      UpdateTunnelRoute = (\<lambda>p rs.
        (let t = \<lparr>Network = norm (u_Network p), TunnelID = u_TunnelID p,
                  Comment = u_Comment p, VirtualNetworkID = u_VirtualNetworkID p\<rparr>
         in (Inr t, map (\<lambda>x. if Network x = Network t \<and> VirtualNetworkID x = VirtualNetworkID t
                              then t else x) rs))),
      DeleteTunnelRoute = (\<lambda>p rs.
        (None, filter (\<lambda>x. Network x \<noteq> norm (d_Network p)
                           \<or> VirtualNetworkID x \<noteq> d_VirtualNetworkID p) rs))\<rparr>"


text \<open>A remote service out of reach: every call fails, and the state counts the calls.\<close>

definition failingAPI :: "nat API" where
  "failingAPI =
     \<lparr>ListTunnelRoutes = (\<lambda>p k. (Inl (ErrorString ''connection refused''), Suc k)),
      CreateTunnelRoute = (\<lambda>p k. (Inl (ErrorString ''connection refused''), Suc k)),
      UpdateTunnelRoute = (\<lambda>p k. (Inl (ErrorString ''connection refused''), Suc k)),
      DeleteTunnelRoute = (\<lambda>p k. (Some (ErrorString ''connection refused''), Suc k))\<rparr>"

text \<open>
  A remote service whose answer to a list call is a function of the query alone: asked
  for the network \<open>10.0.0.1/8\<close> it answers with one route, whose network it spells
  \<open>10.0.0.0/8\<close>; asked for any other network it answers with no route.
\<close>

definition respellingAPI :: "unit API" where
  "respellingAPI =
     \<lparr>ListTunnelRoutes = (\<lambda>p u.
        (if l_NetworkSubset p = ''10.0.0.1/8''
         then Inr [\<lparr>Network = ''10.0.0.0/8'', TunnelID = ''tun-1'', Comment = '''',
                    VirtualNetworkID = ''''\<rparr>]
         else Inr [], u)),
      CreateTunnelRoute = (\<lambda>p u. (Inl (ErrorString ''read only''), u)),
      UpdateTunnelRoute = (\<lambda>p u. (Inl (ErrorString ''read only''), u)),
      DeleteTunnelRoute = (\<lambda>p u. (Some (ErrorString ''read only''), u))\<rparr>"

section \<open>Splitting an identifier\<close>

lemma count_list_not_mem: "c \<notin> set s \<Longrightarrow> count_list s c = 0"
  by (induction s) auto

lemma count_list_cut:
  "c \<in> set s \<Longrightarrow> count_list s c = Suc (count_list (tl (dropWhile (\<lambda>x. x \<noteq> c) s)) c)"
  by (induction s) auto

lemma length_SplitN: "0 < n \<Longrightarrow> length (SplitN s c n) = min n (Suc (count_list s c))"
proof (induction s c n rule: SplitN.induct)
  case (1 s sep)
  then show ?case by simp
next
  case (2 s sep)
  then show ?case by simp
next
  case (3 s sep n)
  show ?case
  proof (cases "sep \<in> set s")
    case True
    with 3 show ?thesis by (simp add: count_list_cut [OF True])
  next
    case False
    then show ?thesis by (simp add: count_list_not_mem)
  qed
qed

lemma length_SplitN_4: "length (SplitN s (CHR ''/'') 4) = min 4 (segments s)"
  by (simp add: length_SplitN segments_def)

lemma four_pieces_iff: "length (SplitN s (CHR ''/'') 4) = 4 \<longleftrightarrow> 4 \<le> segments s"
  unfolding length_SplitN_4 by (auto simp add: min_def)

lemma three_pieces_iff: "length (SplitN s (CHR ''/'') 4) = 3 \<longleftrightarrow> segments s = 3"
  unfolding length_SplitN_4 by (auto simp add: min_def)

lemma SplitN_bad_id: "SplitN ''bad-id'' (CHR ''/'') 4 = [''bad-id'']"
  by code_simp

lemma SplitN_five: "SplitN ''a/b/c/d/e'' (CHR ''/'') 4 = [''a'', ''b'', ''c'', ''d/e'']"
  by code_simp

lemma SplitN_vnet:
  "SplitN ''acct1/192.168.0.0/26/vnet1'' (CHR ''/'') 4 = [''acct1'', ''192.168.0.0'', ''26'', ''vnet1'']"
  by code_simp

lemma SplitN_plain:
  "SplitN ''acct1/192.168.0.0/26'' (CHR ''/'') 4 = [''acct1'', ''192.168.0.0'', ''26'']"
  by code_simp

section \<open>The importer's format check\<close>

lemma three_pieces:
  assumes "length (xs :: 'a list) = 3"
  shows "\<exists>a b c. xs = [a, b, c]"
  using assms by (auto simp add: numeral_3_eq_3 length_Suc_conv)

lemma Import_delegates:
  assumes "SplitN (Id' d) (CHR ''/'') 4 = [a, b, c]"
  shows "Import q client d r =
           (case Read client
                   (d\<lparr>Id' := b @ ''/'' @ c,
                      attrs := (attrs d)(''account_id'' := VString a,
                                         ''network'' := VString (b @ ''/'' @ c))\<rparr>) r of
              Inl p \<Rightarrow> Inl p
            | Inr (dg, d', r') \<Rightarrow>
                if dg \<noteq> []
                then Inr (Inl (ErrorString ''failed to read Tunnel Route state''), d', r')
                else Inr (Inr [d'], d', r'))"
  using assms by (simp add: Import_def index_def Let_def Set'_def SetId_def)

text \<open>
  C1 (as amended). An identifier with fewer than three slash-delimited segments, that is
  with at most one slash, such as \<open>bad-id\<close>, is refused: Import returns the format
  error, whose message holds the identifier as \<open>%q\<close> prints it and the two accepted
  formats. The resource data and the remote state come back as they were, whatever the
  client is: Read is not called and no field is written. An identifier with three
  segments or more never gets the format error: the split is bounded by four pieces, so
  five segments count as four pieces.
\<close>

theorem Import_invalid_format:
  \<open>(segments (Id' d) < 3 \<longrightarrow>
      Import q client d r =
        Inr (Inl (ErrorString
               (''invalid id ('' @ q (Id' d) @ '') specified, should be in format "accountID/network" or "accountID/network/virtual_network_id"'')),
             d, r))
   \<and> (3 \<le> segments (Id' d) \<longrightarrow>
        (\<forall>d' r'. Import q client d r \<noteq>
           Inr (Inl (ErrorString
                  (''invalid id ('' @ q (Id' d) @ '') specified, should be in format "accountID/network" or "accountID/network/virtual_network_id"'')),
                d', r')))\<close>
proof (intro conjI impI allI)
  assume "segments (Id' d) < 3"
  then show \<open>Import q client d r =
        Inr (Inl (ErrorString
               (''invalid id ('' @ q (Id' d) @ '') specified, should be in format "accountID/network" or "accountID/network/virtual_network_id"'')),
             d, r)\<close>
    by (simp add: Import_def length_SplitN_4)
next
  fix d' r'
  assume ge: "3 \<le> segments (Id' d)"
  show \<open>Import q client d r \<noteq>
           Inr (Inl (ErrorString
                  (''invalid id ('' @ q (Id' d) @ '') specified, should be in format "accountID/network" or "accountID/network/virtual_network_id"'')),
                d', r')\<close>
  proof (cases "segments (Id' d) = 3")
    case True
    then have "length (SplitN (Id' d) (CHR ''/'') 4) = 3"
      by (simp add: three_pieces_iff)
    from three_pieces [OF this] obtain a b c
      where "SplitN (Id' d) (CHR ''/'') 4 = [a, b, c]" by blast
    from Import_delegates [OF this, of q client r] show ?thesis
      by (auto split: sum.splits prod.splits)
  next
    case False
    with ge have "length (SplitN (Id' d) (CHR ''/'') 4) = 4"
      by (simp add: four_pieces_iff)
    then show ?thesis
      by (simp add: Import_def index_def Let_def)
  qed
qed

theorem Import_invalid_format_witness:
  \<open>segments (Id' (freshData ''bad-id'')) < 3
   \<and> Import plainQuote failingAPI (freshData ''bad-id'') 0 =
       Inr (Inl (ErrorString
              ''invalid id ("bad-id") specified, should be in format "accountID/network" or "accountID/network/virtual_network_id"''),
            freshData ''bad-id'', 0)\<close>
proof -
  have h: "segments (Id' (freshData ''bad-id'')) < 3"
    by (simp add: segments_def freshData_def)
  show ?thesis
    using h Import_invalid_format
      [where d = "freshData ''bad-id''" and q = plainQuote and client = failingAPI and r = 0]
    by (simp add: plainQuote_def freshData_def)
qed

text \<open>
  C1 as first stated fails at the five-segment identifier \<open>a/b/c/d/e\<close>: the split is
  bounded by four pieces, the fourth being \<open>d/e\<close>, so the length check passes and the
  import ends in a panic, not in the format error.
\<close>

theorem Import_five_segments_counterexample:
  \<open>segments ''a/b/c/d/e'' = 5
   \<and> SplitN ''a/b/c/d/e'' (CHR ''/'') 4 = [''a'', ''b'', ''c'', ''d/e'']
   \<and> Import plainQuote failingAPI (freshData ''a/b/c/d/e'') 0 = Inl (IndexOutOfRange 4 4)\<close>
  by (simp add: segments_def SplitN_five Import_def freshData_def index_def)

text \<open>
  C2. For an identifier that is split into exactly four pieces, Import reads
  \<open>attributes[4]\<close> of a slice of length four and panics with an index out of range:
  nothing is returned, so no import of such an identifier completes.
\<close>

theorem Import_four_segments_panics:
  assumes "length (SplitN (Id' d) (CHR ''/'') 4) = 4"
  shows "Import q client d r = Inl (IndexOutOfRange 4 4)"
  using assms by (simp add: Import_def index_def Let_def)

theorem Import_four_segments_panics_witness:
  "length (SplitN (Id' (freshData ''acct1/192.168.0.0/26/vnet1'')) (CHR ''/'') 4) = 4
   \<and> Import plainQuote (memAPI (\<lambda>n. n)) (freshData ''acct1/192.168.0.0/26/vnet1'') []
       = Inl (IndexOutOfRange 4 4)"
proof -
  have h: "length (SplitN (Id' (freshData ''acct1/192.168.0.0/26/vnet1'')) (CHR ''/'') 4) = 4"
    by (simp add: freshData_def SplitN_vnet)
  show ?thesis
    using h Import_four_segments_panics [OF h, of plainQuote "memAPI (\<lambda>n. n)" "[]"]
    by simp
qed

section \<open>Read\<close>

lemma Read_first_route:
  assumes "Get d ''account_id'' = VString a"
    and "Get d ''network'' = VString n"
    and "Get d ''virtual_network_id'' = VString v"
    and "ListTunnelRoutes client
           \<lparr>l_AccountID = a, l_IsDeleted = Some False, l_NetworkSubset = n,
            l_NetworkSuperset = n, l_VirtualNetworkID = v\<rparr> r = (Inr (t # ts), r')"
  shows "Read client d r =
           Inr ([],
                d\<lparr>attrs := (attrs d)
                   (''tunnel_id'' := VString (TunnelID t),
                    ''network'' := VString (Network t),
                    ''comment'' := (if Comment t = '''' then attrs d ''comment''
                                    else VString (Comment t)),
                    ''virtual_network_id'' := (if v = '''' then attrs d ''virtual_network_id''
                                               else VString (VirtualNetworkID t)))\<rparr>,
                r')"
  using assms
  by (auto simp add: Read_def Set'_def Get_def Let_def fun_eq_iff intro!: ResourceData.equality)


lemma Read_vnet_frame:
  assumes "Read client d r = Inr (dg, d', r')"
    and "Get d ''virtual_network_id'' = VString ''''"
  shows "Get d' ''virtual_network_id'' = VString ''''"
  using assms
  by (auto simp add: Read_def Set'_def SetId_def Get_def Let_def
      split: sum.splits prod.splits if_splits)

text \<open>
  C5. When the list call succeeds with no route, Read sets the identifier to the empty
  string, leaves every field as it was and returns no diagnostic.
\<close>

theorem Read_not_found:
  assumes "Get d ''account_id'' = VString a"
    and "Get d ''network'' = VString n"
    and "Get d ''virtual_network_id'' = VString v"
    and "ListTunnelRoutes client
           \<lparr>l_AccountID = a, l_IsDeleted = Some False, l_NetworkSubset = n,
            l_NetworkSuperset = n, l_VirtualNetworkID = v\<rparr> r = (Inr [], r')"
  shows "Read client d r = Inr ([], d\<lparr>Id' := ''''\<rparr>, r')"
  using assms by (simp add: Read_def SetId_def)

theorem Read_not_found_witness:
  "Get (stored ''192.168.0.0/26'' ''acct1'' ''tun-1'' ''192.168.0.0/26'' '''' (VString ''office''))
       ''account_id'' = VString ''acct1''
   \<and> ListTunnelRoutes (memAPI (\<lambda>n. n))
        \<lparr>l_AccountID = ''acct1'', l_IsDeleted = Some False, l_NetworkSubset = ''192.168.0.0/26'',
         l_NetworkSuperset = ''192.168.0.0/26'', l_VirtualNetworkID = ''''\<rparr> [] = (Inr [], [])
   \<and> Read (memAPI (\<lambda>n. n))
        (stored ''192.168.0.0/26'' ''acct1'' ''tun-1'' ''192.168.0.0/26'' '''' (VString ''office'')) []
      = Inr ([], stored '''' ''acct1'' ''tun-1'' ''192.168.0.0/26'' '''' (VString ''office''), [])"
proof -
  let ?d = "stored ''192.168.0.0/26'' ''acct1'' ''tun-1'' ''192.168.0.0/26'' '''' (VString ''office'')"
  have h1: "Get ?d ''account_id'' = VString ''acct1''"
    and h2: "Get ?d ''network'' = VString ''192.168.0.0/26''"
    and h3: "Get ?d ''virtual_network_id'' = VString ''''"
    by (simp_all add: Get_def stored_def)
  have h4: "ListTunnelRoutes (memAPI (\<lambda>n. n))
        \<lparr>l_AccountID = ''acct1'', l_IsDeleted = Some False, l_NetworkSubset = ''192.168.0.0/26'',
         l_NetworkSuperset = ''192.168.0.0/26'', l_VirtualNetworkID = ''''\<rparr> [] = (Inr [], [])"
    by (simp add: memAPI_def)
  show ?thesis
    using h1 h4 Read_not_found [OF h1 h2 h3 h4] by (simp add: stored_def)
qed

text \<open>
  C4. When the list call succeeds with at least one route, Read takes the first route and
  ignores the others. It stores the route's tunnel and network; it stores the route's
  comment when that is not empty and keeps the stored comment otherwise; it stores the
  route's virtual network when the virtual network read from the resource data was not
  empty and keeps the stored one otherwise. The identifier and every other field stay
  as they were, and no diagnostic is returned.
\<close>

theorem Read_found:
  assumes "Get d ''account_id'' = VString a"
    and "Get d ''network'' = VString n"
    and "Get d ''virtual_network_id'' = VString v"
    and "ListTunnelRoutes client
           \<lparr>l_AccountID = a, l_IsDeleted = Some False, l_NetworkSubset = n,
            l_NetworkSuperset = n, l_VirtualNetworkID = v\<rparr> r = (Inr (t # ts), r')"
  shows "\<exists>d'. Read client d r = Inr ([], d', r')
            \<and> Id' d' = Id' d
            \<and> Get d' ''tunnel_id'' = VString (TunnelID t)
            \<and> Get d' ''network'' = VString (Network t)
            \<and> Get d' ''comment'' =
                 (if Comment t = '''' then Get d ''comment'' else VString (Comment t))
            \<and> Get d' ''virtual_network_id'' =
                 (if v = '''' then Get d ''virtual_network_id''
                  else VString (VirtualNetworkID t))
            \<and> (\<forall>k. k \<notin> {''tunnel_id'', ''network'', ''comment'', ''virtual_network_id''}
                    \<longrightarrow> Get d' k = Get d k)"
  unfolding Read_first_route [OF assms] by (simp add: Get_def)

theorem Read_found_witness:
  "ListTunnelRoutes (memAPI (\<lambda>n. n))
        \<lparr>l_AccountID = ''acct1'', l_IsDeleted = Some False, l_NetworkSubset = ''192.168.0.0/26'',
         l_NetworkSuperset = ''192.168.0.0/26'', l_VirtualNetworkID = ''''\<rparr>
        [\<lparr>Network = ''192.168.0.0/26'', TunnelID = ''tun-2'', Comment = '''',
          VirtualNetworkID = ''vnet-default''\<rparr>]
      = (Inr [\<lparr>Network = ''192.168.0.0/26'', TunnelID = ''tun-2'', Comment = '''',
                VirtualNetworkID = ''vnet-default''\<rparr>],
         [\<lparr>Network = ''192.168.0.0/26'', TunnelID = ''tun-2'', Comment = '''',
           VirtualNetworkID = ''vnet-default''\<rparr>])
   \<and> Read (memAPI (\<lambda>n. n))
        (stored ''192.168.0.0/26'' ''acct1'' ''tun-1'' ''192.168.0.0/26'' '''' (VString ''keep me''))
        [\<lparr>Network = ''192.168.0.0/26'', TunnelID = ''tun-2'', Comment = '''',
          VirtualNetworkID = ''vnet-default''\<rparr>]
      = Inr ([],
             stored ''192.168.0.0/26'' ''acct1'' ''tun-2'' ''192.168.0.0/26'' '''' (VString ''keep me''),
             [\<lparr>Network = ''192.168.0.0/26'', TunnelID = ''tun-2'', Comment = '''',
               VirtualNetworkID = ''vnet-default''\<rparr>])"
proof -
  let ?d = "stored ''192.168.0.0/26'' ''acct1'' ''tun-1'' ''192.168.0.0/26'' '''' (VString ''keep me'')"
  let ?t = "\<lparr>Network = ''192.168.0.0/26'', TunnelID = ''tun-2'', Comment = '''',
             VirtualNetworkID = ''vnet-default''\<rparr>"
  have h1: "Get ?d ''account_id'' = VString ''acct1''"
    and h2: "Get ?d ''network'' = VString ''192.168.0.0/26''"
    and h3: "Get ?d ''virtual_network_id'' = VString ''''"
    by (simp_all add: Get_def stored_def)
  have h4: "ListTunnelRoutes (memAPI (\<lambda>n. n))
        \<lparr>l_AccountID = ''acct1'', l_IsDeleted = Some False, l_NetworkSubset = ''192.168.0.0/26'',
         l_NetworkSuperset = ''192.168.0.0/26'', l_VirtualNetworkID = ''''\<rparr> [?t]
      = (Inr (?t # []), [?t])"
    by (simp add: memAPI_def)
  from Read_found [OF h1 h2 h3 h4]
  obtain d' where r: "Read (memAPI (\<lambda>n. n)) ?d [?t] = Inr ([], d', [?t])"
    and i: "Id' d' = Id' ?d"
    and f1: "Get d' ''tunnel_id'' = VString ''tun-2''"
    and f2: "Get d' ''network'' = VString ''192.168.0.0/26''"
    and f3: "Get d' ''comment'' = VString ''keep me''"
    and f4: "Get d' ''virtual_network_id'' = VString ''''"
    and fr: "\<forall>k. k \<notin> {''tunnel_id'', ''network'', ''comment'', ''virtual_network_id''}
                \<longrightarrow> Get d' k = Get ?d k"
    by (auto simp add: Get_def stored_def)
  have "attrs d' k = attrs (stored ''192.168.0.0/26'' ''acct1'' ''tun-2'' ''192.168.0.0/26'' ''''
                             (VString ''keep me'')) k" for k
    using f1 f2 f3 f4 fr by (auto simp add: Get_def stored_def)
  then have "d' = stored ''192.168.0.0/26'' ''acct1'' ''tun-2'' ''192.168.0.0/26'' ''''
                    (VString ''keep me'')"
    using i by (intro ResourceData.equality) (auto simp add: stored_def)
  with r h4 show ?thesis by simp
qed

text \<open>
  C9 (as amended). Let the answer of the list call be a function of the query alone, with
  the remote state left as it is, and let the resource data hold strings for the account,
  the network and the virtual network. If, whenever the first Read finds a route, the
  query built from that route's network (and from its virtual network, when the one
  read from the resource data was not empty) gets the same answer, then Read returns,
  and a second Read returns the same diagnostics and the same resource data.
\<close>

theorem Read_twice:
  assumes "Get d ''account_id'' = VString a"
    and "Get d ''network'' = VString n"
    and "Get d ''virtual_network_id'' = VString v"
    and fixed: "\<forall>p. ListTunnelRoutes client p r = (f p, r)"
    and stable: "\<And>t ts.
        f \<lparr>l_AccountID = a, l_IsDeleted = Some False, l_NetworkSubset = n,
           l_NetworkSuperset = n, l_VirtualNetworkID = v\<rparr> = Inr (t # ts) \<Longrightarrow>
        f \<lparr>l_AccountID = a, l_IsDeleted = Some False, l_NetworkSubset = Network t,
           l_NetworkSuperset = Network t,
           l_VirtualNetworkID = (if v = '''' then '''' else VirtualNetworkID t)\<rparr>
        = Inr (t # ts)"
  shows "\<exists>dg d1. Read client d r = Inr (dg, d1, r) \<and> Read client d1 r = Inr (dg, d1, r)"
proof (cases "f \<lparr>l_AccountID = a, l_IsDeleted = Some False, l_NetworkSubset = n,
           l_NetworkSuperset = n, l_VirtualNetworkID = v\<rparr>")
  case (Inl err)
  then have "Read client d r =
      Inr (FromErr (WrapError (''failed to fetch Tunnel Route: '' @ Error err) err), d, r)"
    using assms(1-3) fixed by (simp add: Read_def)
  then show ?thesis by blast
next
  case (Inr routes)
  show ?thesis
  proof (cases routes)
    case Nil
    with Inr have first: "Read client d r = Inr ([], d\<lparr>Id' := ''''\<rparr>, r)"
      using assms(1-3) fixed by (simp add: Read_def SetId_def)
    from Nil Inr have "Read client (d\<lparr>Id' := ''''\<rparr>) r = Inr ([], d\<lparr>Id' := ''''\<rparr>, r)"
      using assms(1-3) fixed by (simp add: Read_def SetId_def Get_def)
    with first show ?thesis by blast
  next
    case (Cons t ts)
    let ?fin = "d\<lparr>attrs := (attrs d)
                   (''tunnel_id'' := VString (TunnelID t),
                    ''network'' := VString (Network t),
                    ''comment'' := (if Comment t = '''' then attrs d ''comment''
                                    else VString (Comment t)),
                    ''virtual_network_id'' := (if v = '''' then attrs d ''virtual_network_id''
                                               else VString (VirtualNetworkID t)))\<rparr>"
    from Cons Inr fixed
    have "ListTunnelRoutes client
           \<lparr>l_AccountID = a, l_IsDeleted = Some False, l_NetworkSubset = n,
            l_NetworkSuperset = n, l_VirtualNetworkID = v\<rparr> r = (Inr (t # ts), r)"
      by simp
    from Read_first_route [OF assms(1-3) this]
    have first: "Read client d r = Inr ([], ?fin, r)" .
    from stable Cons Inr
    have again: "f \<lparr>l_AccountID = a, l_IsDeleted = Some False, l_NetworkSubset = Network t,
           l_NetworkSuperset = Network t,
           l_VirtualNetworkID = (if v = '''' then '''' else VirtualNetworkID t)\<rparr>
        = Inr (t # ts)" by simp
    have "Read client ?fin r = Inr ([], ?fin, r)"
      using assms(1-3) fixed again
      by (auto simp add: Read_def Set'_def Get_def Let_def fun_eq_iff
          intro!: ResourceData.equality)
    with first show ?thesis by blast
  qed
qed

theorem Read_twice_witness:
  "Read (memAPI (\<lambda>n. n))
        (stored ''192.168.0.0/26/vnet-1'' ''acct1'' ''tun-1'' ''192.168.0.0/26'' ''vnet-1'' VNil)
        [\<lparr>Network = ''192.168.0.0/26'', TunnelID = ''tun-2'', Comment = ''office'',
          VirtualNetworkID = ''vnet-1''\<rparr>]
      = Inr ([],
             stored ''192.168.0.0/26/vnet-1'' ''acct1'' ''tun-2'' ''192.168.0.0/26'' ''vnet-1''
               (VString ''office''),
             [\<lparr>Network = ''192.168.0.0/26'', TunnelID = ''tun-2'', Comment = ''office'',
               VirtualNetworkID = ''vnet-1''\<rparr>])
   \<and> Read (memAPI (\<lambda>n. n))
        (stored ''192.168.0.0/26/vnet-1'' ''acct1'' ''tun-2'' ''192.168.0.0/26'' ''vnet-1''
           (VString ''office''))
        [\<lparr>Network = ''192.168.0.0/26'', TunnelID = ''tun-2'', Comment = ''office'',
          VirtualNetworkID = ''vnet-1''\<rparr>]
      = Inr ([],
             stored ''192.168.0.0/26/vnet-1'' ''acct1'' ''tun-2'' ''192.168.0.0/26'' ''vnet-1''
               (VString ''office''),
             [\<lparr>Network = ''192.168.0.0/26'', TunnelID = ''tun-2'', Comment = ''office'',
               VirtualNetworkID = ''vnet-1''\<rparr>])"
proof -
  let ?d = "stored ''192.168.0.0/26/vnet-1'' ''acct1'' ''tun-1'' ''192.168.0.0/26'' ''vnet-1'' VNil"
  let ?fin = "stored ''192.168.0.0/26/vnet-1'' ''acct1'' ''tun-2'' ''192.168.0.0/26'' ''vnet-1''
               (VString ''office'')"
  let ?t = "\<lparr>Network = ''192.168.0.0/26'', TunnelID = ''tun-2'', Comment = ''office'',
             VirtualNetworkID = ''vnet-1''\<rparr>"
  let ?f = "\<lambda>p. fst (ListTunnelRoutes (memAPI (\<lambda>n. n)) p [?t])"
  have h1: "Get ?d ''account_id'' = VString ''acct1''"
    and h2: "Get ?d ''network'' = VString ''192.168.0.0/26''"
    and h3: "Get ?d ''virtual_network_id'' = VString ''vnet-1''"
    by (simp_all add: Get_def stored_def)
  have fixed: "\<forall>p. ListTunnelRoutes (memAPI (\<lambda>n. n)) p [?t] = (?f p, [?t])"
    by (simp add: memAPI_def)
  have stable: "?f \<lparr>l_AccountID = ''acct1'', l_IsDeleted = Some False,
                    l_NetworkSubset = Network t, l_NetworkSuperset = Network t,
                    l_VirtualNetworkID =
                      (if ''vnet-1'' = '''' then '''' else VirtualNetworkID t)\<rparr> = Inr (t # ts)"
    if "?f \<lparr>l_AccountID = ''acct1'', l_IsDeleted = Some False,
              l_NetworkSubset = ''192.168.0.0/26'', l_NetworkSuperset = ''192.168.0.0/26'',
              l_VirtualNetworkID = ''vnet-1''\<rparr> = Inr (t # ts)" for t ts
    using that by (auto simp add: memAPI_def)
  from Read_twice [OF h1 h2 h3 fixed stable]
  obtain dg d1 where a: "Read (memAPI (\<lambda>n. n)) ?d [?t] = Inr (dg, d1, [?t])"
    and b: "Read (memAPI (\<lambda>n. n)) d1 [?t] = Inr (dg, d1, [?t])"
    by blast
  have c: "Read (memAPI (\<lambda>n. n)) ?d [?t] = Inr ([], ?fin, [?t])"
    by (auto simp add: Read_def Get_def Set'_def stored_def memAPI_def Let_def fun_eq_iff)
  from a c have "dg = []" and "d1 = ?fin" by simp_all
  with b c show ?thesis by simp
qed

text \<open>
  C9 as first stated fails. The remote service \<open>respellingAPI\<close> answers by a function of
  the query alone and nothing changes it. The first Read stores the network as the route
  spells it; the second Read then asks for that spelling, finds nothing and clears the
  identifier, which the first Read had kept.
\<close>

theorem Read_twice_counterexample:
  "Read respellingAPI (stored ''10.0.0.1/8'' ''acct1'' ''tun-1'' ''10.0.0.1/8'' '''' VNil) ()
     = Inr ([], stored ''10.0.0.1/8'' ''acct1'' ''tun-1'' ''10.0.0.0/8'' '''' VNil, ())
   \<and> Read respellingAPI (stored ''10.0.0.1/8'' ''acct1'' ''tun-1'' ''10.0.0.0/8'' '''' VNil) ()
     = Inr ([], stored '''' ''acct1'' ''tun-1'' ''10.0.0.0/8'' '''' VNil, ())
   \<and> Id' (stored '''' ''acct1'' ''tun-1'' ''10.0.0.0/8'' '''' VNil)
     \<noteq> Id' (stored ''10.0.0.1/8'' ''acct1'' ''tun-1'' ''10.0.0.0/8'' '''' VNil)"
  by (auto simp add: Read_def Get_def Set'_def SetId_def stored_def respellingAPI_def Let_def
      fun_eq_iff)

section \<open>Create\<close>






section \<open>Update\<close>



section \<open>Import of a three-segment identifier\<close>

text \<open>
  C7. For an identifier that is split into exactly three pieces, Import sets the account
  to the first piece and the network and the identifier to the second and third pieces
  joined by a slash, writes no other field (the virtual network among them), and hands
  that resource data to Read: a panic of Read is the panic of Import, a diagnostic of
  Read makes the import fail, and otherwise Import returns the resource data Read left.
  When the virtual network was the empty string before the import, it still is in the
  resource data the import leaves.
\<close>

theorem Import_three_segments:
  assumes "SplitN (Id' d) (CHR ''/'') 4 = [a, b, c]"
  shows "\<exists>d0. Id' d0 = b @ ''/'' @ c
            \<and> Get d0 ''account_id'' = VString a
            \<and> Get d0 ''network'' = VString (b @ ''/'' @ c)
            \<and> (\<forall>k. k \<noteq> ''account_id'' \<longrightarrow> k \<noteq> ''network'' \<longrightarrow> Get d0 k = Get d k)
            \<and> Import q client d r =
                (case Read client d0 r of
                   Inl p \<Rightarrow> Inl p
                 | Inr (dg, d', r') \<Rightarrow>
                     if dg \<noteq> []
                     then Inr (Inl (ErrorString ''failed to read Tunnel Route state''), d', r')
                     else Inr (Inr [d'], d', r'))
            \<and> (Get d ''virtual_network_id'' = VString '''' \<longrightarrow>
                 (\<forall>res d' r'. Import q client d r = Inr (res, d', r') \<longrightarrow>
                    Get d' ''virtual_network_id'' = VString ''''))"
proof -
  let ?init = "d\<lparr>Id' := b @ ''/'' @ c,
               attrs := (attrs d)(''account_id'' := VString a,
                                  ''network'' := VString (b @ ''/'' @ c))\<rparr>"
  note imp = Import_delegates [OF assms, of q client r]
  have "Get d' ''virtual_network_id'' = VString ''''"
    if v: "Get d ''virtual_network_id'' = VString ''''"
      and i: "Import q client d r = Inr (res, d', r')" for res d' r'
  proof -
    from v have v0: "Get ?init ''virtual_network_id'' = VString ''''"
      by (simp add: Get_def)
    from i imp obtain dg where "Read client ?init r = Inr (dg, d', r')"
      by (auto split: sum.splits prod.splits if_splits)
    from Read_vnet_frame [OF this v0] show ?thesis .
  qed
  with imp show ?thesis
    by (intro exI [of _ ?init]) (simp add: Get_def)
qed

theorem Import_three_segments_witness:
  "SplitN (Id' (freshData ''acct1/192.168.0.0/26'')) (CHR ''/'') 4
     = [''acct1'', ''192.168.0.0'', ''26'']
   \<and> Import plainQuote (memAPI (\<lambda>n. n)) (freshData ''acct1/192.168.0.0/26'')
        [\<lparr>Network = ''192.168.0.0/26'', TunnelID = ''tun-1'', Comment = ''office'',
          VirtualNetworkID = ''vnet-default''\<rparr>]
     = Inr (Inr [stored ''192.168.0.0/26'' ''acct1'' ''tun-1'' ''192.168.0.0/26'' ''''
                   (VString ''office'')],
            stored ''192.168.0.0/26'' ''acct1'' ''tun-1'' ''192.168.0.0/26'' ''''
              (VString ''office''),
            [\<lparr>Network = ''192.168.0.0/26'', TunnelID = ''tun-1'', Comment = ''office'',
              VirtualNetworkID = ''vnet-default''\<rparr>])"
proof -
  let ?d = "freshData ''acct1/192.168.0.0/26''"
  let ?t = "\<lparr>Network = ''192.168.0.0/26'', TunnelID = ''tun-1'', Comment = ''office'',
             VirtualNetworkID = ''vnet-default''\<rparr>"
  let ?fin = "stored ''192.168.0.0/26'' ''acct1'' ''tun-1'' ''192.168.0.0/26'' ''''
               (VString ''office'')"
  have h: "SplitN (Id' ?d) (CHR ''/'') 4 = [''acct1'', ''192.168.0.0'', ''26'']"
    by (simp add: freshData_def SplitN_plain)
  from Import_three_segments [OF h, of plainQuote "memAPI (\<lambda>n. n)" "[?t]"]
  obtain d0 where i: "Id' d0 = ''192.168.0.0/26''"
    and a: "Get d0 ''account_id'' = VString ''acct1''"
    and n: "Get d0 ''network'' = VString ''192.168.0.0/26''"
    and fr: "\<forall>k. k \<noteq> ''account_id'' \<longrightarrow> k \<noteq> ''network'' \<longrightarrow> Get d0 k = Get ?d k"
    and imp: "Import plainQuote (memAPI (\<lambda>n. n)) ?d [?t] =
                (case Read (memAPI (\<lambda>n. n)) d0 [?t] of
                   Inl p \<Rightarrow> Inl p
                 | Inr (dg, d', r') \<Rightarrow>
                     if dg \<noteq> []
                     then Inr (Inl (ErrorString ''failed to read Tunnel Route state''), d', r')
                     else Inr (Inr [d'], d', r'))"
    by auto
  have "attrs d0 k = attrs (stored ''192.168.0.0/26'' ''acct1'' '''' ''192.168.0.0/26'' ''''
                             (VString '''')) k" for k
    using a n fr by (auto simp add: Get_def stored_def freshData_def)
  with i have "d0 = stored ''192.168.0.0/26'' ''acct1'' '''' ''192.168.0.0/26'' '''' (VString '''')"
    by (intro ResourceData.equality) (auto simp add: stored_def)
  moreover have "Read (memAPI (\<lambda>n. n))
      (stored ''192.168.0.0/26'' ''acct1'' '''' ''192.168.0.0/26'' '''' (VString '''')) [?t]
      = Inr ([], ?fin, [?t])"
    by (auto simp add: Read_def Get_def Set'_def stored_def memAPI_def Let_def fun_eq_iff)
  ultimately have "Import plainQuote (memAPI (\<lambda>n. n)) ?d [?t] = Inr (Inr [?fin], ?fin, [?t])"
    using imp by simp
  with h show ?thesis by simp
qed

text \<open>
  C8. When the Read that Import delegates to returns a diagnostic, Import fails with the
  error made by \<open>errors.New\<close> from the text \<open>failed to read Tunnel Route state\<close>: the
  error wraps nothing, and neither it nor its message depends on the diagnostic.
\<close>

theorem Import_read_failure:
  assumes "SplitN (Id' d) (CHR ''/'') 4 = [a, b, c]"
    and "Read client
           (d\<lparr>Id' := b @ ''/'' @ c,
              attrs := (attrs d)(''account_id'' := VString a,
                                 ''network'' := VString (b @ ''/'' @ c))\<rparr>) r
         = Inr (dg, d', r')"
    and "dg \<noteq> []"
  shows "Import q client d r
           = Inr (Inl (ErrorString ''failed to read Tunnel Route state''), d', r')
         \<and> Error (ErrorString ''failed to read Tunnel Route state'')
             = ''failed to read Tunnel Route state''
         \<and> Unwrap (ErrorString ''failed to read Tunnel Route state'') = None"
  using assms(2,3) by (simp add: Import_delegates [OF assms(1)])

theorem Import_read_failure_witness:
  "SplitN (Id' (freshData ''acct1/192.168.0.0/26'')) (CHR ''/'') 4
     = [''acct1'', ''192.168.0.0'', ''26'']
   \<and> Read failingAPI
        (stored ''192.168.0.0/26'' ''acct1'' '''' ''192.168.0.0/26'' '''' (VString '''')) 0
     = Inr ([\<lparr>Severity = SevError,
              Summary = ''failed to fetch Tunnel Route: connection refused''\<rparr>],
            stored ''192.168.0.0/26'' ''acct1'' '''' ''192.168.0.0/26'' '''' (VString ''''), 1)
   \<and> Import plainQuote failingAPI (freshData ''acct1/192.168.0.0/26'') 0
     = Inr (Inl (ErrorString ''failed to read Tunnel Route state''),
            stored ''192.168.0.0/26'' ''acct1'' '''' ''192.168.0.0/26'' '''' (VString ''''), 1)"
proof -
  let ?d = "freshData ''acct1/192.168.0.0/26''"
  let ?init = "?d\<lparr>Id' := ''192.168.0.0'' @ ''/'' @ ''26'',
                attrs := (attrs ?d)(''account_id'' := VString ''acct1'',
                                    ''network'' := VString (''192.168.0.0'' @ ''/'' @ ''26''))\<rparr>"
  let ?s = "stored ''192.168.0.0/26'' ''acct1'' '''' ''192.168.0.0/26'' '''' (VString '''')"
  let ?dg = "[\<lparr>Severity = SevError,
               Summary = ''failed to fetch Tunnel Route: connection refused''\<rparr>]"
  have h: "SplitN (Id' ?d) (CHR ''/'') 4 = [''acct1'', ''192.168.0.0'', ''26'']"
    by (simp add: freshData_def SplitN_plain)
  have e: "?init = ?s"
    by (auto simp add: freshData_def stored_def fun_eq_iff)
  have r: "Read failingAPI ?s 0 = Inr (?dg, ?s, 1)"
    by (simp add: Read_def Get_def stored_def failingAPI_def FromErr_def)
  from r e have r0: "Read failingAPI ?init 0 = Inr (?dg, ?s, 1)" by simp
  have ne: "?dg \<noteq> []" by simp
  from Import_read_failure [OF h r0 ne, of plainQuote] h r show ?thesis by simp
qed

end
